theory Spec2Isabelle
  imports Main "HOL-Library.AList"
begin

section \<open>Python values\<close>

text \<open>
  The values that the tool handles: what \<open>r.json ()\<close> returns, what the library
  \<open>nmcli.core\<close> returns for a name, a domain and an identifier, and the dictionaries the
  tool builds. A dictionary is an association list in insertion order; its keys are
  strings, as JSON object keys and the keys written in \<open>dnsaddhost.py\<close> are. Numbers are
  integers (floats are outside the model), and a \<open>char\<close> stands for one character of a
  Python string.
\<close>

datatype pyval =
    PNone
  | PBool bool
  | PInt int
  | PStr string
  | PList "pyval list"
  | PDict "(string \<times> pyval) list"

text \<open>
  The exceptions that can leave \<open>main\<close>. \<open>RuntimeError m\<close> carries \<open>str (m)\<close>; it is the
  only class that line 37 catches. \<open>OtherError\<close> is any other class the library raises.
\<close>

datatype exn =
    RuntimeError string
  | UnboundLocalError
  | TypeError
  | KeyError
  | IndexError
  | AttributeError
  | OtherError string

datatype 'a result = Return 'a | Raise exn

text \<open>Truth value testing, as \<open>not idview\<close> on line 47 applies it.\<close>

fun truthy :: "pyval \<Rightarrow> bool" where
  "truthy PNone = False"
| "truthy (PBool b) = b"
| "truthy (PInt i) = (i \<noteq> 0)"
| "truthy (PStr s) = (s \<noteq> [])"
| "truthy (PList xs) = (xs \<noteq> [])"
| "truthy (PDict d) = (d \<noteq> [])"

text \<open>\<open>len (j)\<close>: defined on lists, dictionaries and strings, a TypeError elsewhere.\<close>

fun py_len :: "pyval \<Rightarrow> nat result" where
  "py_len (PList xs) = Return (length xs)"
| "py_len (PDict d) = Return (length d)"
| "py_len (PStr s) = Return (length s)"
| "py_len _ = Raise TypeError"

text \<open>
  \<open>j [i]\<close> for an integer \<open>i \<ge> 0\<close>. A dictionary has string keys only, so an integer
  subscript is a KeyError.
\<close>

fun py_getitem_int :: "pyval \<Rightarrow> nat \<Rightarrow> pyval result" where
  "py_getitem_int (PList xs) i = (if i < length xs then Return (xs ! i) else Raise IndexError)"
| "py_getitem_int (PStr s) i = (if i < length s then Return (PStr [s ! i]) else Raise IndexError)"
| "py_getitem_int (PDict d) i = Raise KeyError"
| "py_getitem_int _ i = Raise TypeError"

text \<open>\<open>d [k]\<close> for a string \<open>k\<close>: a dictionary lookup, a TypeError on every other value.\<close>

fun py_getitem_str :: "pyval \<Rightarrow> string \<Rightarrow> pyval result" where
  "py_getitem_str (PDict d) k = (case map_of d k of None \<Rightarrow> Raise KeyError | Some v \<Rightarrow> Return v)"
| "py_getitem_str _ k = Raise TypeError"

text \<open>\<open>a.append (x)\<close>: only a list has the method. The result is the list after the call.\<close>

fun py_append :: "pyval \<Rightarrow> pyval \<Rightarrow> pyval result" where
  "py_append (PList xs) x = Return (PList (xs @ [x]))"
| "py_append _ x = Raise AttributeError"

text \<open>
  \<open>data ['addr'].append (ip)\<close> (line 97) changes the list that the dictionary holds, so
  \<open>data\<close> afterwards is \<open>data\<close> with the longer list under the same key, at the same place.
\<close>

definition append_addr :: "pyval \<Rightarrow> string \<Rightarrow> pyval result" where
  "append_addr data ip =
     (case py_getitem_str data ''addr'' of
        Raise e \<Rightarrow> Raise e
      | Return a \<Rightarrow>
          (case py_append a (PStr ip) of
             Raise e \<Rightarrow> Raise e
           | Return a' \<Rightarrow>
               (case data of
                  PDict d \<Rightarrow> Return (PDict (AList.update ''addr'' a' d))
                | _ \<Rightarrow> Raise TypeError)))"

text \<open>Decimal digits of a natural number, and \<open>str\<close> of an integer.\<close>

fun digits :: "nat \<Rightarrow> string" where
  "digits n =
     (if n < 10 then [''0123456789'' ! n]
      else digits (n div 10) @ [''0123456789'' ! (n mod 10)])"

declare digits.simps [simp del]

definition str_int :: "int \<Rightarrow> string" where
  "str_int i = (if i < 0 then CHR ''-'' # digits (nat (- i)) else digits (nat i))"

section \<open>The library and the remote API\<close>

text \<open>
  A request is the argument list of \<open>nm.api\<close>: the method, the URI, and the keyword
  arguments \<open>params\<close> and \<open>json\<close> (\<open>None\<close> when not passed).
\<close>

record request =
  req_method :: string
  req_uri :: string
  req_params :: "pyval option"
  req_json :: "pyval option"

text \<open>
  A response: whether it is a success, and what \<open>r.json ()\<close> gives (it raises when the
  body is not JSON).
\<close>

record response =
  success :: bool
  body :: "pyval result"

text \<open>
  Every call into the library is recorded with its arguments and with what came back.
\<close>

datatype event =
    Ev_read_conf string "unit result"
  | Ev_split_fqdn string "(pyval \<times> pyval \<times> pyval) result"
  | Ev_get_idview string "pyval result"
  | Ev_api request "response result"

text \<open>
  The class \<open>netmagis\<close> of \<open>nmcli.core\<close> is not part of the source at hand, and the spec
  leaves configuration parsing, name resolution and transport to it. Its methods are
  parameters: each takes the state \<open>'w\<close> of the \<open>nm\<close> object and of the server behind it,
  and returns a value or raises, with the next state. \<open>answer_text\<close> is the message that
  \<open>test_answer\<close> prints for a response, and \<open>repr\<close> is Python's rendering of a list or a
  dictionary; neither is fixed by the spec.
\<close>

record 'w env =
  default_conf_filename :: string
  read_conf :: "string \<Rightarrow> 'w \<Rightarrow> unit result \<times> 'w"
  split_fqdn :: "string \<Rightarrow> 'w \<Rightarrow> (pyval \<times> pyval \<times> pyval) result \<times> 'w"
  get_idview :: "string \<Rightarrow> 'w \<Rightarrow> pyval result \<times> 'w"
  api :: "request \<Rightarrow> 'w \<Rightarrow> response result \<times> 'w"
  answer_text :: "response \<Rightarrow> string"
  repr :: "pyval \<Rightarrow> string"

text \<open>\<open>str (v)\<close>, which is also what \<open>'{}'.format (v)\<close> inserts.\<close>

definition py_str :: "'w env \<Rightarrow> pyval \<Rightarrow> string" where
  "py_str env v =
     (case v of
        PNone \<Rightarrow> ''None''
      | PBool b \<Rightarrow> (if b then ''True'' else ''False'')
      | PInt i \<Rightarrow> str_int i
      | PStr s \<Rightarrow> s
      | _ \<Rightarrow> repr env v)"

text \<open>
  How a run ends: \<open>main\<close> returns (exit status 0), \<open>grmbl\<close> prints a message and exits
  with a non-zero status, or an exception that nothing catches ends the process with a
  traceback.
\<close>

datatype outcome = Exit_ok | Fatal string | Uncaught exn

text \<open>
  Modelled from the spec: \<open>netmagis.grmbl\<close> is missing from the source. The spec's error
  handling design says that every error prints a message and terminates the process with
  a non-zero status.
\<close>

definition grmbl :: "string \<Rightarrow> outcome" where
  "grmbl msg = Fatal msg"

text \<open>
  Modelled from the spec: \<open>netmagis.test_answer\<close> is missing from the source. The spec
  says that any non-success response from the remote API is surfaced immediately as a
  fatal error. \<open>None\<close> means that the call returns and \<open>main\<close> goes on.
\<close>

definition test_answer :: "'w env \<Rightarrow> response \<Rightarrow> outcome option" where
  "test_answer env r = (if success r then None else Some (grmbl (answer_text env r)))"

text \<open>The state of a run: the state of the library and the calls made so far.\<close>

type_synonym 'w run = "'w \<times> event list"

definition call_read_conf :: "'w env \<Rightarrow> string \<Rightarrow> 'w run \<Rightarrow> unit result \<times> 'w run" where
  "call_read_conf env f s =
     (case read_conf env f (fst s) of (r, w) \<Rightarrow> (r, (w, snd s @ [Ev_read_conf f r])))"

definition call_split_fqdn ::
  "'w env \<Rightarrow> string \<Rightarrow> 'w run \<Rightarrow> (pyval \<times> pyval \<times> pyval) result \<times> 'w run" where
  "call_split_fqdn env f s =
     (case split_fqdn env f (fst s) of (r, w) \<Rightarrow> (r, (w, snd s @ [Ev_split_fqdn f r])))"

definition call_get_idview :: "'w env \<Rightarrow> string \<Rightarrow> 'w run \<Rightarrow> pyval result \<times> 'w run" where
  "call_get_idview env v s =
     (case get_idview env v (fst s) of (r, w) \<Rightarrow> (r, (w, snd s @ [Ev_get_idview v r])))"

definition call_api :: "'w env \<Rightarrow> request \<Rightarrow> 'w run \<Rightarrow> response result \<times> 'w run" where
  "call_api env rq s =
     (case api env rq (fst s) of (r, w) \<Rightarrow> (r, (w, snd s @ [Ev_api rq r])))"

section \<open>The tool\<close>

text \<open>The parsed command line (lines 19 to 26): \<open>config_file\<close> is \<open>None\<close> without \<open>-c\<close>.\<close>

record args =
  config_file :: "string option"
  fqdn :: string
  ip :: string
  view :: string

text \<open>
  Lines 60 to 82: the host does not exist. The payload is built and sent with POST; after
  \<open>test_answer\<close> the function returns.
\<close>

definition create_host ::
  "'w env \<Rightarrow> args \<Rightarrow> pyval \<Rightarrow> pyval \<Rightarrow> pyval \<Rightarrow> 'w run \<Rightarrow> outcome \<times> 'w run" where
  "create_host env a name iddom idview s =
     (let idhinfo = PInt 0;
          data = PDict
            [(''name'', name),
             (''iddom'', iddom),
             (''idview'', idview),
             (''mac'', PStr ''''),
             (''idhinfo'', idhinfo),
             (''comment'', PStr ''''),
             (''respname'', PStr ''''),
             (''respmail'', PStr ''''),
             (''iddhcpprof'', PInt (- 1)),
             (''ttl'', PInt (- 1)),
             (''addr'', PList [PStr (ip a)])]
      in case call_api env
             \<lparr>req_method = ''post'', req_uri = ''/hosts'',
              req_params = None, req_json = Some data\<rparr> s of
           (Raise e, s1) \<Rightarrow> (Uncaught e, s1)
         | (Return r, s1) \<Rightarrow>
             (case test_answer env r of
                Some out \<Rightarrow> (out, s1)
              | None \<Rightarrow> (Exit_ok, s1)))"

text \<open>
  Lines 84 to 99: the host exists once. Its identifier is read from the first match, the
  full record is fetched, the address is appended and the record is sent back with PUT.
\<close>

definition update_host :: "'w env \<Rightarrow> args \<Rightarrow> pyval \<Rightarrow> 'w run \<Rightarrow> outcome \<times> 'w run" where
  "update_host env a j s =
     (case py_getitem_int j 0 of
        Raise e \<Rightarrow> (Uncaught e, s)
      | Return j0 \<Rightarrow>
     (case py_getitem_str j0 ''idhost'' of
        Raise e \<Rightarrow> (Uncaught e, s)
      | Return idhost \<Rightarrow>
     (let uri = ''/hosts/'' @ py_str env idhost
      in case call_api env
             \<lparr>req_method = ''get'', req_uri = uri,
              req_params = None, req_json = None\<rparr> s of
           (Raise e, s1) \<Rightarrow> (Uncaught e, s1)
         | (Return r, s1) \<Rightarrow>
     (case test_answer env r of
        Some out \<Rightarrow> (out, s1)
      | None \<Rightarrow>
     (case body r of
        Raise e \<Rightarrow> (Uncaught e, s1)
      | Return data \<Rightarrow>
     (case append_addr data (ip a) of
        Raise e \<Rightarrow> (Uncaught e, s1)
      | Return data' \<Rightarrow>
     (case call_api env
             \<lparr>req_method = ''put'', req_uri = uri,
              req_params = None, req_json = Some data'\<rparr> s1 of
        (Raise e, s2) \<Rightarrow> (Uncaught e, s2)
      | (Return r', s2) \<Rightarrow>
     (case test_answer env r' of
        Some out \<Rightarrow> (out, s2)
      | None \<Rightarrow> (Exit_ok, s2)))))))))"

text \<open>
  Lines 54 to 104: the lookup, and the branch on the number of matches.
\<close>

definition add_host ::
  "'w env \<Rightarrow> args \<Rightarrow> pyval \<Rightarrow> pyval \<Rightarrow> pyval \<Rightarrow> pyval \<Rightarrow> 'w run \<Rightarrow> outcome \<times> 'w run" where
  "add_host env a name domain iddom idview s =
     (let query = PDict [(''name'', name), (''domain'', domain), (''view'', PStr (view a))]
      in case call_api env
             \<lparr>req_method = ''get'', req_uri = ''/hosts'',
              req_params = Some query, req_json = None\<rparr> s of
           (Raise e, s1) \<Rightarrow> (Uncaught e, s1)
         | (Return r, s1) \<Rightarrow>
     (case test_answer env r of
        Some out \<Rightarrow> (out, s1)
      | None \<Rightarrow>
     (case body r of
        Raise e \<Rightarrow> (Uncaught e, s1)
      | Return j \<Rightarrow>
     (case py_len j of
        Raise e \<Rightarrow> (Uncaught e, s1)
      | Return nr \<Rightarrow>
          if nr = 0 then create_host env a name iddom idview s1
          else if nr = 1 then update_host env a j s1
          else
            (grmbl (''Server error: host '' @ [CHR 0x27] @ py_str env name @ ''.''
                      @ py_str env domain @ [CHR 0x27]
                      @ '' exists more than once in view '' @ view a),
             s1)))))"

text \<open>
  Lines 27 to 48. The local variable \<open>configfile\<close> is assigned on line 28 only, under
  \<open>args.config_file is None\<close>: it is \<open>None\<close> here when it is unbound, and reading it on
  line 36 then raises UnboundLocalError, which \<open>except RuntimeError\<close> does not catch.
  \<open>w\<close> is the state of the object that \<open>netmagis ()\<close> constructs on line 34, and
  \<open>split_fqdn\<close> is taken to return a triple, as line 40 unpacks one.
\<close>

definition main :: "'w env \<Rightarrow> args \<Rightarrow> 'w \<Rightarrow> outcome \<times> 'w run" where
  "main env a w =
     (let s = (w, []);
          configfile = (if config_file a = None then Some (default_conf_filename env) else None)
      in case configfile of
           None \<Rightarrow> (Uncaught UnboundLocalError, s)
         | Some f \<Rightarrow>
     (case call_read_conf env f s of
        (Raise (RuntimeError m), s1) \<Rightarrow> (grmbl m, s1)
      | (Raise e, s1) \<Rightarrow> (Uncaught e, s1)
      | (Return u, s1) \<Rightarrow>
     (case call_split_fqdn env (fqdn a) s1 of
        (Raise e, s2) \<Rightarrow> (Uncaught e, s2)
      | (Return (name, domain, iddom), s2) \<Rightarrow>
          if name = PNone then (grmbl (''Invalid FQDN '' @ fqdn a), s2)
          else if iddom = PNone then (grmbl (''Unknown domain '' @ py_str env domain), s2)
          else
     (case call_get_idview env (view a) s2 of
        (Raise e, s3) \<Rightarrow> (Uncaught e, s3)
      | (Return idview, s3) \<Rightarrow>
          if \<not> truthy idview then (grmbl (''Unknown view '' @ view a), s3)
          else add_host env a name domain iddom idview s3))))"

text \<open>What a run is observed by: the requests sent to the remote API, in order.\<close>

fun requests :: "event list \<Rightarrow> request list" where
  "requests [] = []"
| "requests (Ev_api rq r # evs) = rq # requests evs"
| "requests (_ # evs) = requests evs"

definition mutating :: "request \<Rightarrow> bool" where
  "mutating rq = (req_method rq = ''post'' \<or> req_method rq = ''put'')"

section \<open>Names for the requests and messages of the tool\<close>

text \<open>
  The four requests that \<open>main\<close> builds and the message of its last branch, under names
  of their own, for the statements below. Each is the term that the definitions above
  contain.
\<close>

definition lookup_request :: "args \<Rightarrow> pyval \<Rightarrow> pyval \<Rightarrow> request" where
  "lookup_request a name domain =
     \<lparr>req_method = ''get'', req_uri = ''/hosts'',
      req_params = Some (PDict [(''name'', name), (''domain'', domain), (''view'', PStr (view a))]),
      req_json = None\<rparr>"

definition post_request :: "args \<Rightarrow> pyval \<Rightarrow> pyval \<Rightarrow> pyval \<Rightarrow> request" where
  "post_request a name iddom idview =
     \<lparr>req_method = ''post'', req_uri = ''/hosts'', req_params = None,
      req_json = Some (PDict
            [(''name'', name),
             (''iddom'', iddom),
             (''idview'', idview),
             (''mac'', PStr ''''),
             (''idhinfo'', PInt 0),
             (''comment'', PStr ''''),
             (''respname'', PStr ''''),
             (''respmail'', PStr ''''),
             (''iddhcpprof'', PInt (- 1)),
             (''ttl'', PInt (- 1)),
             (''addr'', PList [PStr (ip a)])])\<rparr>"

definition get_request :: "'w env \<Rightarrow> pyval \<Rightarrow> request" where
  "get_request env idhost =
     \<lparr>req_method = ''get'', req_uri = ''/hosts/'' @ py_str env idhost, req_params = None, req_json = None\<rparr>"

definition put_request :: "'w env \<Rightarrow> pyval \<Rightarrow> pyval \<Rightarrow> request" where
  "put_request env idhost data =
     \<lparr>req_method = ''put'', req_uri = ''/hosts/'' @ py_str env idhost, req_params = None, req_json = Some data\<rparr>"

definition dup_msg :: "'w env \<Rightarrow> args \<Rightarrow> pyval \<Rightarrow> pyval \<Rightarrow> string" where
  "dup_msg env a name domain =
     ''Server error: host '' @ [CHR 0x27] @ py_str env name @ ''.''
        @ py_str env domain @ [CHR 0x27] @ '' exists more than once in view '' @ view a"

text \<open>
  What \<open>main\<close> ends with after its last call to the API: the exception if the call
  raised, the fatal error of \<open>test_answer\<close> if the response is not a success, and a
  normal return otherwise.
\<close>

definition final :: "'w env \<Rightarrow> response result \<Rightarrow> outcome" where
  "final env r = (case r of Raise e \<Rightarrow> Uncaught e | Return x \<Rightarrow> if success x then Exit_ok else Fatal (answer_text env x))"



section \<open>Example environments\<close>

text \<open>
  Concrete libraries and servers on which the theorems below are instantiated: the
  command line of the spec's scenarios, a library that resolves every name to \<open>names\<close>
  and every view to \<open>idview\<close>, and a server that answers by \<open>respond\<close>.
\<close>

definition example_args :: args where
  "example_args =
     \<lparr>config_file = None, fqdn = ''host1.example.com'', ip = ''192.0.2.10'',
      view = ''internal''\<rparr>"

definition example_env ::
  "(pyval \<times> pyval \<times> pyval) \<Rightarrow> pyval \<Rightarrow> (request \<Rightarrow> response) \<Rightarrow> 'w env" where
  "example_env names idview respond =
     \<lparr>default_conf_filename = ''netmagisrc'',
      read_conf = (\<lambda>f w. (Return (), w)),
      split_fqdn = (\<lambda>f w. (Return names, w)),
      get_idview = (\<lambda>v w. (Return idview, w)),
      api = (\<lambda>rq w. (Return (respond rq), w)),
      answer_text = (\<lambda>r. ''API error''),
      repr = (\<lambda>v. '''')\<rparr>"

definition host1 :: "pyval \<times> pyval \<times> pyval" where
  "host1 = (PStr ''host1'', PStr ''example.com'', PInt 3)"

definition no_host :: "request \<Rightarrow> response" where
  "no_host rq = \<lparr>success = True, body = Return (PList [])\<rparr>"

definition one_host :: "request \<Rightarrow> response" where
  "one_host rq =
     (if req_uri rq = ''/hosts''
      then \<lparr>success = True, body = Return (PList [PDict [(''idhost'', PInt 42)]])\<rparr>
      else \<lparr>success = True,
            body = Return (PDict [(''idhost'', PInt 42), (''name'', PStr ''host1''),
                                  (''addr'', PList [PStr ''192.0.2.10'']),
                                  (''ttl'', PInt (- 1))])\<rparr>)"

definition two_hosts :: "request \<Rightarrow> response" where
  "two_hosts rq =
     \<lparr>success = True,
      body = Return (PList [PDict [(''idhost'', PInt 42)], PDict [(''idhost'', PInt 43)]])\<rparr>"

definition refusing :: "request \<Rightarrow> response" where
  "refusing rq = \<lparr>success = False, body = Raise (OtherError ''JSONDecodeError'')\<rparr>"

text \<open>A server that has no host and, unlike \<open>no_host\<close>, would refuse a PUT.\<close>

definition no_put :: "request \<Rightarrow> response" where
  "no_put rq =
     (if req_method rq = ''put'' then \<lparr>success = False, body = Return PNone\<rparr>
      else \<lparr>success = True, body = Return (PList [])\<rparr>)"

section \<open>The runs of each part\<close>

lemma requests_append: "requests (xs @ ys) = requests xs @ requests ys"
  by (induction xs rule: requests.induct) simp_all

lemmas request_defs = lookup_request_def get_request_def put_request_def post_request_def

text \<open>
  Each part of \<open>main\<close> is characterised by the calls it adds to the record and by the
  outcome, one case per path through the code.
\<close>

lemma create_host_run:
  assumes "create_host env a name iddom idview s = (out, s')"
  obtains r where
    "snd s' = snd s @ [Ev_api (post_request a name iddom idview) r]" "out = final env r"
proof -
  obtain r w where "api env (post_request a name iddom idview) (fst s) = (r, w)"
    by (cases "api env (post_request a name iddom idview) (fst s)")
  with assms have
    "snd s' = snd s @ [Ev_api (post_request a name iddom idview) r] \<and> out = final env r"
    by (cases r)
       (auto simp: create_host_def call_api_def test_answer_def grmbl_def final_def Let_def
                   post_request_def split: if_splits)
  then show ?thesis using that by blast
qed

lemma update_host_run:
  assumes "update_host env a j s = (out, s')"
  obtains
    (no_idhost) e where
      "py_getitem_int j 0 = Raise e \<or>
       (\<exists>j0. py_getitem_int j 0 = Return j0 \<and> py_getitem_str j0 ''idhost'' = Raise e)"
      "out = Uncaught e" "snd s' = snd s"
  | (get_raised) j0 idhost e where
      "py_getitem_int j 0 = Return j0" "py_getitem_str j0 ''idhost'' = Return idhost"
      "snd s' = snd s @ [Ev_api (get_request env idhost) (Raise e)]" "out = Uncaught e"
  | (get_failed) j0 idhost r where
      "py_getitem_int j 0 = Return j0" "py_getitem_str j0 ''idhost'' = Return idhost"
      "snd s' = snd s @ [Ev_api (get_request env idhost) (Return r)]"
      "\<not> success r" "out = Fatal (answer_text env r)"
  | (bad_record) j0 idhost r e where
      "py_getitem_int j 0 = Return j0" "py_getitem_str j0 ''idhost'' = Return idhost"
      "snd s' = snd s @ [Ev_api (get_request env idhost) (Return r)]"
      "success r" "out = Uncaught e"
      "body r = Raise e \<or> (\<exists>data. body r = Return data \<and> append_addr data (ip a) = Raise e)"
  | (put) j0 idhost r data data' r' where
      "py_getitem_int j 0 = Return j0" "py_getitem_str j0 ''idhost'' = Return idhost"
      "success r" "body r = Return data" "append_addr data (ip a) = Return data'"
      "snd s' = snd s @ [Ev_api (get_request env idhost) (Return r),
                         Ev_api (put_request env idhost data') r']"
      "out = final env r'"
proof (cases "py_getitem_int j 0")
  case (Raise e)
  with assms have o: "out = Uncaught e" and t: "snd s' = snd s"
    by (auto simp add: update_host_def)
  from Raise have "py_getitem_int j 0 = Raise e \<or>
       (\<exists>j0. py_getitem_int j 0 = Return j0 \<and> py_getitem_str j0 ''idhost'' = Raise e)"
    by simp
  from this o t show ?thesis by (rule no_idhost)
next
  case j0: (Return j0)
  show ?thesis
  proof (cases "py_getitem_str j0 ''idhost''")
    case (Raise e)
    with assms j0 have o: "out = Uncaught e" and t: "snd s' = snd s"
      by (auto simp add: update_host_def)
    from j0 Raise have "py_getitem_int j 0 = Raise e \<or>
         (\<exists>j0. py_getitem_int j 0 = Return j0 \<and> py_getitem_str j0 ''idhost'' = Raise e)"
      by simp
    from this o t show ?thesis by (rule no_idhost)
  next
    case idh: (Return idhost)
    obtain r w where g: "api env (get_request env idhost) (fst s) = (r, w)"
      by (cases "api env (get_request env idhost) (fst s)")
    show ?thesis
    proof (cases r)
      case (Raise e)
      with assms j0 idh g have
        t: "snd s' = snd s @ [Ev_api (get_request env idhost) (Raise e)]"
        and o: "out = Uncaught e"
        by (auto simp add: update_host_def call_api_def get_request_def Let_def)
      from j0 idh t o show ?thesis by (rule get_raised)
    next
      case r: (Return resp)
      show ?thesis
      proof (cases "success resp")
        case False
        with assms j0 idh g r have
          t: "snd s' = snd s @ [Ev_api (get_request env idhost) (Return resp)]"
          and o: "out = Fatal (answer_text env resp)"
          by (auto simp add: update_host_def call_api_def get_request_def Let_def
                test_answer_def grmbl_def)
        from j0 idh t False o show ?thesis by (rule get_failed)
      next
        case ok: True
        show ?thesis
        proof (cases "body resp")
          case (Raise e)
          with assms j0 idh g r ok have
            t: "snd s' = snd s @ [Ev_api (get_request env idhost) (Return resp)]"
            and o: "out = Uncaught e"
            by (auto simp add: update_host_def call_api_def get_request_def Let_def
                  test_answer_def)
          from Raise have "body resp = Raise e \<or>
              (\<exists>data. body resp = Return data \<and> append_addr data (ip a) = Raise e)"
            by simp
          from j0 idh t ok o this show ?thesis by (rule bad_record)
        next
          case b: (Return data)
          show ?thesis
          proof (cases "append_addr data (ip a)")
            case (Raise e)
            with assms j0 idh g r ok b have
              t: "snd s' = snd s @ [Ev_api (get_request env idhost) (Return resp)]"
              and o: "out = Uncaught e"
              by (auto simp add: update_host_def call_api_def get_request_def Let_def
                    test_answer_def)
            from b Raise have "body resp = Raise e \<or>
                (\<exists>data. body resp = Return data \<and> append_addr data (ip a) = Raise e)"
              by simp
            from j0 idh t ok o this show ?thesis by (rule bad_record)
          next
            case d: (Return data')
            obtain r' w' where p: "api env (put_request env idhost data') w = (r', w')"
              by (cases "api env (put_request env idhost data') w")
            with assms j0 idh g r ok b d have
              t: "snd s' = snd s @ [Ev_api (get_request env idhost) (Return resp),
                                    Ev_api (put_request env idhost data') r']"
              and o: "out = final env r'"
              by (cases r';
                  auto simp add: update_host_def call_api_def get_request_def put_request_def
                    Let_def test_answer_def grmbl_def final_def split: if_splits)+
            from j0 idh ok b d t o show ?thesis by (rule put)
          qed
        qed
      qed
    qed
  qed
qed

lemma add_host_run:
  assumes "add_host env a name domain iddom idview s = (out, s')"
  obtains
    (lookup_raised) e where
      "snd s' = snd s @ [Ev_api (lookup_request a name domain) (Raise e)]" "out = Uncaught e"
  | (lookup_failed) r where
      "snd s' = snd s @ [Ev_api (lookup_request a name domain) (Return r)]"
      "\<not> success r" "out = Fatal (answer_text env r)"
  | (bad_list) r e where
      "snd s' = snd s @ [Ev_api (lookup_request a name domain) (Return r)]"
      "success r" "out = Uncaught e"
      "body r = Raise e \<or> (\<exists>j. body r = Return j \<and> py_len j = Raise e)"
  | (duplicate) r j nr where
      "snd s' = snd s @ [Ev_api (lookup_request a name domain) (Return r)]"
      "success r" "body r = Return j" "py_len j = Return nr" "1 < nr"
      "out = Fatal (dup_msg env a name domain)"
  | (create) r j w where
      "success r" "body r = Return j" "py_len j = Return 0"
      "create_host env a name iddom idview
         (w, snd s @ [Ev_api (lookup_request a name domain) (Return r)]) = (out, s')"
  | (update) r j w where
      "success r" "body r = Return j" "py_len j = Return 1"
      "update_host env a j
         (w, snd s @ [Ev_api (lookup_request a name domain) (Return r)]) = (out, s')"
proof -
  obtain r w where g: "api env (lookup_request a name domain) (fst s) = (r, w)"
    by (cases "api env (lookup_request a name domain) (fst s)")
  show ?thesis
  proof (cases r)
    case (Raise e)
    with assms g have
      "snd s' = snd s @ [Ev_api (lookup_request a name domain) (Raise e)]" "out = Uncaught e"
      by (auto simp add: add_host_def call_api_def lookup_request_def Let_def)
    then show ?thesis by (rule lookup_raised)
  next
    case r: (Return resp)
    show ?thesis
    proof (cases "success resp")
      case False
      with assms g r have
        t: "snd s' = snd s @ [Ev_api (lookup_request a name domain) (Return resp)]"
        and o: "out = Fatal (answer_text env resp)"
        by (auto simp add: add_host_def call_api_def lookup_request_def Let_def
              test_answer_def grmbl_def)
      from t False o show ?thesis by (rule lookup_failed)
    next
      case ok: True
      show ?thesis
      proof (cases "body resp")
        case (Raise e)
        with assms g r ok have
          t: "snd s' = snd s @ [Ev_api (lookup_request a name domain) (Return resp)]"
          and o: "out = Uncaught e"
          by (auto simp add: add_host_def call_api_def lookup_request_def Let_def
                test_answer_def)
        from Raise have
          "body resp = Raise e \<or> (\<exists>j. body resp = Return j \<and> py_len j = Raise e)"
          by simp
        from t ok o this show ?thesis by (rule bad_list)
      next
        case b: (Return j)
        show ?thesis
        proof (cases "py_len j")
          case (Raise e)
          with assms g r ok b have
            t: "snd s' = snd s @ [Ev_api (lookup_request a name domain) (Return resp)]"
            and o: "out = Uncaught e"
            by (auto simp add: add_host_def call_api_def lookup_request_def Let_def
                  test_answer_def)
          from b Raise have
            "body resp = Raise e \<or> (\<exists>j. body resp = Return j \<and> py_len j = Raise e)"
            by simp
          from t ok o this show ?thesis by (rule bad_list)
        next
          case n: (Return nr)
          consider "nr = 0" | "nr = 1" | "1 < nr" by arith
          then show ?thesis
          proof cases
            case 1
            with assms g r ok b n have c:
              "create_host env a name iddom idview
                 (w, snd s @ [Ev_api (lookup_request a name domain) (Return resp)]) = (out, s')"
              by (auto simp add: add_host_def call_api_def lookup_request_def Let_def
                    test_answer_def)
            from n 1 have "py_len j = Return 0" by simp
            from ok b this c show ?thesis by (rule create)
          next
            case 2
            with assms g r ok b n have c:
              "update_host env a j
                 (w, snd s @ [Ev_api (lookup_request a name domain) (Return resp)]) = (out, s')"
              by (auto simp add: add_host_def call_api_def lookup_request_def Let_def
                    test_answer_def)
            from n 2 have "py_len j = Return 1" by simp
            from ok b this c show ?thesis by (rule update)
          next
            case 3
            with assms g r ok b n have
              t: "snd s' = snd s @ [Ev_api (lookup_request a name domain) (Return resp)]"
              and o: "out = Fatal (dup_msg env a name domain)"
              by (auto simp add: add_host_def call_api_def lookup_request_def Let_def
                    test_answer_def grmbl_def dup_msg_def)
            from t ok b n 3 o show ?thesis by (rule duplicate)
          qed
        qed
      qed
    qed
  qed
qed

lemma main_run:
  assumes "main env a w = (out, s')"
  obtains
    (unbound) "config_file a \<noteq> None" "out = Uncaught UnboundLocalError" "snd s' = []"
  | (conf_raised) e where
      "config_file a = None"
      "snd s' = [Ev_read_conf (default_conf_filename env) (Raise e)]"
      "out = (case e of RuntimeError m \<Rightarrow> Fatal m | _ \<Rightarrow> Uncaught e)"
  | (fqdn_raised) e where
      "config_file a = None"
      "snd s' = [Ev_read_conf (default_conf_filename env) (Return ()),
                 Ev_split_fqdn (fqdn a) (Raise e)]"
      "out = Uncaught e"
  | (invalid_fqdn) domain iddom where
      "config_file a = None"
      "snd s' = [Ev_read_conf (default_conf_filename env) (Return ()),
                 Ev_split_fqdn (fqdn a) (Return (PNone, domain, iddom))]"
      "out = Fatal (''Invalid FQDN '' @ fqdn a)"
  | (unknown_domain) name domain where
      "config_file a = None" "name \<noteq> PNone"
      "snd s' = [Ev_read_conf (default_conf_filename env) (Return ()),
                 Ev_split_fqdn (fqdn a) (Return (name, domain, PNone))]"
      "out = Fatal (''Unknown domain '' @ py_str env domain)"
  | (idview_raised) name domain iddom e where
      "config_file a = None" "name \<noteq> PNone" "iddom \<noteq> PNone"
      "snd s' = [Ev_read_conf (default_conf_filename env) (Return ()),
                 Ev_split_fqdn (fqdn a) (Return (name, domain, iddom)),
                 Ev_get_idview (view a) (Raise e)]"
      "out = Uncaught e"
  | (unknown_view) name domain iddom idview where
      "config_file a = None" "name \<noteq> PNone" "iddom \<noteq> PNone" "\<not> truthy idview"
      "snd s' = [Ev_read_conf (default_conf_filename env) (Return ()),
                 Ev_split_fqdn (fqdn a) (Return (name, domain, iddom)),
                 Ev_get_idview (view a) (Return idview)]"
      "out = Fatal (''Unknown view '' @ view a)"
  | (resolved) name domain iddom idview w3 where
      "config_file a = None" "name \<noteq> PNone" "iddom \<noteq> PNone" "truthy idview"
      "add_host env a name domain iddom idview
         (w3, [Ev_read_conf (default_conf_filename env) (Return ()),
               Ev_split_fqdn (fqdn a) (Return (name, domain, iddom)),
               Ev_get_idview (view a) (Return idview)]) = (out, s')"
proof (cases "config_file a")
  case (Some f)
  with assms have o: "out = Uncaught UnboundLocalError" and tr: "snd s' = []"
    by (auto simp add: main_def)
  from Some have "config_file a \<noteq> None" by simp
  from this o tr show ?thesis by (rule unbound)
next
  case cf: None
  obtain r1 w1 where c: "read_conf env (default_conf_filename env) w = (r1, w1)"
    by (cases "read_conf env (default_conf_filename env) w")
  show ?thesis
  proof (cases r1)
    case (Raise e)
    with assms cf c have
      tr: "snd s' = [Ev_read_conf (default_conf_filename env) (Raise e)]"
      and o: "out = (case e of RuntimeError m \<Rightarrow> Fatal m | _ \<Rightarrow> Uncaught e)"
      by (cases e; auto simp add: main_def call_read_conf_def grmbl_def)+
    from cf tr o show ?thesis by (rule conf_raised)
  next
    case r1: (Return u)
    obtain r2 w2 where f: "split_fqdn env (fqdn a) w1 = (r2, w2)"
      by (cases "split_fqdn env (fqdn a) w1")
    show ?thesis
    proof (cases r2)
      case (Raise e)
      with assms cf c r1 f have
        tr: "snd s' = [Ev_read_conf (default_conf_filename env) (Return ()),
                   Ev_split_fqdn (fqdn a) (Raise e)]"
        and o: "out = Uncaught e"
        by (auto simp add: main_def call_read_conf_def call_split_fqdn_def)
      from cf tr o show ?thesis by (rule fqdn_raised)
    next
      case r2: (Return t)
      obtain name domain iddom where t: "t = (name, domain, iddom)"
        by (cases t)
      consider "name = PNone" | "name \<noteq> PNone" "iddom = PNone"
        | "name \<noteq> PNone" "iddom \<noteq> PNone" by blast
      then show ?thesis
      proof cases
        case 1
        with assms cf c r1 f r2 t have
          tr: "snd s' = [Ev_read_conf (default_conf_filename env) (Return ()),
                     Ev_split_fqdn (fqdn a) (Return (PNone, domain, iddom))]"
          and o: "out = Fatal (''Invalid FQDN '' @ fqdn a)"
          by (auto simp add: main_def call_read_conf_def call_split_fqdn_def grmbl_def)
        from cf tr o show ?thesis by (rule invalid_fqdn)
      next
        case 2
        with assms cf c r1 f r2 t have
          tr: "snd s' = [Ev_read_conf (default_conf_filename env) (Return ()),
                     Ev_split_fqdn (fqdn a) (Return (name, domain, PNone))]"
          and o: "out = Fatal (''Unknown domain '' @ py_str env domain)"
          by (auto simp add: main_def call_read_conf_def call_split_fqdn_def grmbl_def)
        from cf 2(1) tr o show ?thesis by (rule unknown_domain)
      next
        case 3
        obtain r3 w3 where v: "get_idview env (view a) w2 = (r3, w3)"
          by (cases "get_idview env (view a) w2")
        show ?thesis
        proof (cases r3)
          case (Raise e)
          with assms cf c r1 f r2 t 3 v have
            tr: "snd s' = [Ev_read_conf (default_conf_filename env) (Return ()),
                       Ev_split_fqdn (fqdn a) (Return (name, domain, iddom)),
                       Ev_get_idview (view a) (Raise e)]"
            and o: "out = Uncaught e"
            by (auto simp add: main_def call_read_conf_def call_split_fqdn_def
                  call_get_idview_def)
          from cf 3 tr o show ?thesis by (rule idview_raised)
        next
          case r3: (Return idview)
          show ?thesis
          proof (cases "truthy idview")
            case False
            with assms cf c r1 f r2 t 3 v r3 have
              tr: "snd s' = [Ev_read_conf (default_conf_filename env) (Return ()),
                         Ev_split_fqdn (fqdn a) (Return (name, domain, iddom)),
                         Ev_get_idview (view a) (Return idview)]"
              and o: "out = Fatal (''Unknown view '' @ view a)"
              by (auto simp add: main_def call_read_conf_def call_split_fqdn_def
                    call_get_idview_def grmbl_def)
            from cf 3 False tr o show ?thesis by (rule unknown_view)
          next
            case True
            with assms cf c r1 f r2 t 3 v r3 have ah:
              "add_host env a name domain iddom idview
                 (w3, [Ev_read_conf (default_conf_filename env) (Return ()),
                       Ev_split_fqdn (fqdn a) (Return (name, domain, iddom)),
                       Ev_get_idview (view a) (Return idview)]) = (out, s')"
              by (auto simp add: main_def call_read_conf_def call_split_fqdn_def
                    call_get_idview_def)
            from cf 3 True ah show ?thesis by (rule resolved)
          qed
        qed
      qed
    qed
  qed
qed

lemma append_addr_Return:
  assumes "append_addr data i = Return data'"
  obtains d A where "data = PDict d" "map_of d ''addr'' = Some (PList A)"
    "data' = PDict (AList.update ''addr'' (PList (A @ [PStr i])) d)"
proof (cases data)
  case (PDict d)
  with assms obtain v where v: "map_of d ''addr'' = Some v"
    by (auto simp: append_addr_def split: option.splits)
  with assms PDict obtain A where "v = PList A"
    by (cases v) (auto simp: append_addr_def)
  with assms PDict v that show ?thesis
    by (auto simp: append_addr_def)
qed (use assms in \<open>auto simp: append_addr_def\<close>)








section \<open>Example runs\<close>

lemmas run_defs = main_def add_host_def create_host_def update_host_def
  call_api_def call_read_conf_def call_split_fqdn_def call_get_idview_def
  test_answer_def grmbl_def append_addr_def py_str_def str_int_def digits.simps Let_def

lemmas example_defs = example_args_def example_env_def host1_def no_host_def one_host_def
  two_hosts_def refusing_def no_put_def

lemma run_no_host:
  "main (example_env host1 (PInt 2) no_host) example_args () =
     (Exit_ok, (),
      [Ev_read_conf ''netmagisrc'' (Return ()),
       Ev_split_fqdn ''host1.example.com''
         (Return (PStr ''host1'', PStr ''example.com'', PInt 3)),
       Ev_get_idview ''internal'' (Return (PInt 2)),
       Ev_api \<lparr>req_method = ''get'', req_uri = ''/hosts'',
       req_params = Some (PDict [(''name'', PStr ''host1''),
         (''domain'', PStr ''example.com''), (''view'', PStr ''internal'')]),
       req_json = None\<rparr>
         (Return \<lparr>success = True, body = Return (PList [])\<rparr>),
       Ev_api \<lparr>req_method = ''post'', req_uri = ''/hosts'', req_params = None,
               req_json = Some (PDict
          [(''name'', PStr ''host1''), (''iddom'', PInt 3), (''idview'', PInt 2),
           (''mac'', PStr ''''), (''idhinfo'', PInt 0), (''comment'', PStr ''''),
           (''respname'', PStr ''''), (''respmail'', PStr ''''),
           (''iddhcpprof'', PInt (- 1)), (''ttl'', PInt (- 1)),
           (''addr'', PList [PStr ''192.0.2.10''])])\<rparr>
         (Return \<lparr>success = True, body = Return (PList [])\<rparr>)])"
  by (simp add: run_defs example_defs)


lemma run_one_host:
  "main (example_env host1 (PInt 2) one_host) example_args () =
     (Exit_ok, (),
      [Ev_read_conf ''netmagisrc'' (Return ()),
       Ev_split_fqdn ''host1.example.com''
         (Return (PStr ''host1'', PStr ''example.com'', PInt 3)),
       Ev_get_idview ''internal'' (Return (PInt 2)),
       Ev_api \<lparr>req_method = ''get'', req_uri = ''/hosts'',
       req_params = Some (PDict [(''name'', PStr ''host1''),
         (''domain'', PStr ''example.com''), (''view'', PStr ''internal'')]),
       req_json = None\<rparr>
         (Return \<lparr>success = True, body = Return (PList [PDict [(''idhost'', PInt 42)]])\<rparr>),
       Ev_api \<lparr>req_method = ''get'', req_uri = ''/hosts/42'', req_params = None,
               req_json = None\<rparr>
         (Return \<lparr>success = True, body = Return (PDict [(''idhost'', PInt 42), (''name'', PStr ''host1''),
                (''addr'', PList [PStr ''192.0.2.10'']), (''ttl'', PInt (- 1))])\<rparr>),
       Ev_api \<lparr>req_method = ''put'', req_uri = ''/hosts/42'', req_params = None,
               req_json = Some (PDict [(''idhost'', PInt 42), (''name'', PStr ''host1''),
                (''addr'', PList [PStr ''192.0.2.10'', PStr ''192.0.2.10'']),
                (''ttl'', PInt (- 1))])\<rparr>
         (Return \<lparr>success = True, body = Return (PDict [(''idhost'', PInt 42), (''name'', PStr ''host1''),
                (''addr'', PList [PStr ''192.0.2.10'']), (''ttl'', PInt (- 1))])\<rparr>)])"
  by (simp add: run_defs example_defs)

lemma run_two_hosts:
  "main (example_env host1 (PInt 2) two_hosts) example_args () =
     (Fatal (''Server error: host '' @ [CHR 0x27] @ ''host1.example.com'' @ [CHR 0x27]
             @ '' exists more than once in view internal''), (),
      [Ev_read_conf ''netmagisrc'' (Return ()),
       Ev_split_fqdn ''host1.example.com''
         (Return (PStr ''host1'', PStr ''example.com'', PInt 3)),
       Ev_get_idview ''internal'' (Return (PInt 2)),
       Ev_api \<lparr>req_method = ''get'', req_uri = ''/hosts'',
       req_params = Some (PDict [(''name'', PStr ''host1''),
         (''domain'', PStr ''example.com''), (''view'', PStr ''internal'')]),
       req_json = None\<rparr>
         (Return \<lparr>success = True,
            body = Return (PList [PDict [(''idhost'', PInt 42)],
                                  PDict [(''idhost'', PInt 43)]])\<rparr>)])"
  by (simp add: run_defs example_defs)

lemma run_refusing:
  "main (example_env host1 (PInt 2) refusing) example_args () =
     (Fatal ''API error'', (),
      [Ev_read_conf ''netmagisrc'' (Return ()),
       Ev_split_fqdn ''host1.example.com''
         (Return (PStr ''host1'', PStr ''example.com'', PInt 3)),
       Ev_get_idview ''internal'' (Return (PInt 2)),
       Ev_api \<lparr>req_method = ''get'', req_uri = ''/hosts'',
       req_params = Some (PDict [(''name'', PStr ''host1''),
         (''domain'', PStr ''example.com''), (''view'', PStr ''internal'')]),
       req_json = None\<rparr>
         (Return \<lparr>success = False, body = Raise (OtherError ''JSONDecodeError'')\<rparr>)])"
  by (simp add: run_defs example_defs)

lemma run_invalid_fqdn:
  "main (example_env (PNone, PNone, PNone) (PInt 2) no_host) example_args () =
     (Fatal ''Invalid FQDN host1.example.com'', (),
      [Ev_read_conf ''netmagisrc'' (Return ()),
       Ev_split_fqdn ''host1.example.com'' (Return (PNone, PNone, PNone))])"
  by (simp add: run_defs example_defs)

lemma run_unknown_domain:
  "main (example_env (PStr ''host1'', PStr ''example.com'', PNone) (PInt 2) no_host)
       example_args () =
     (Fatal ''Unknown domain example.com'', (),
      [Ev_read_conf ''netmagisrc'' (Return ()),
       Ev_split_fqdn ''host1.example.com''
         (Return (PStr ''host1'', PStr ''example.com'', PNone))])"
  by (simp add: run_defs example_defs)

lemma run_unknown_view:
  "main (example_env host1 PNone no_host) example_args () =
     (Fatal ''Unknown view internal'', (),
      [Ev_read_conf ''netmagisrc'' (Return ()),
       Ev_split_fqdn ''host1.example.com''
         (Return (PStr ''host1'', PStr ''example.com'', PInt 3)),
       Ev_get_idview ''internal'' (Return PNone)])"
  by (simp add: run_defs example_defs)

lemma run_view_zero:
  "main (example_env host1 (PInt 0) no_host) example_args () =
     (Fatal ''Unknown view internal'', (),
      [Ev_read_conf ''netmagisrc'' (Return ()),
       Ev_split_fqdn ''host1.example.com''
         (Return (PStr ''host1'', PStr ''example.com'', PInt 3)),
       Ev_get_idview ''internal'' (Return (PInt 0))])"
  by (simp add: run_defs example_defs)

lemma example_args_sel:
  "config_file example_args = None" "fqdn example_args = ''host1.example.com''"
  "ip example_args = ''192.0.2.10''" "view example_args = ''internal''"
  by (simp_all add: example_args_def)

lemma example_env_sel:
  "answer_text (example_env names idview respond) r = ''API error''"
  "default_conf_filename (example_env names idview respond) = ''netmagisrc''"
  by (simp_all add: example_env_def)

lemma py_str_lit:
  "py_str env (PStr s) = s" "py_str env (PInt 42) = ''42''"
  by (simp_all add: py_str_def str_int_def digits.simps)

section \<open>The claims\<close>

text \<open>
  In every statement, \<open>main env a w = (out, w', tr)\<close> is a run of the tool: \<open>out\<close> is how
  it ends and \<open>tr\<close> is the record of its calls, each with what came back.
\<close>

text \<open>
  C1. When the host lookup succeeds and returns zero matches, the requests of the run
  are the lookup and then exactly one POST on \<open>/hosts\<close>, whose payload has the resolved
  name, iddom and idview, empty strings for mac, comment, respname and respmail, idhinfo
  0, iddhcpprof and ttl \<open>-1\<close>, and the address list \<open>[ip]\<close>.
\<close>

theorem create_request_on_zero_matches:
  assumes "main env a w = (out, w', tr)"
    and "Ev_split_fqdn f (Return (name, domain, iddom)) \<in> set tr"
    and "Ev_get_idview v (Return idview) \<in> set tr"
    and "Ev_api rq (Return r) \<in> set tr"
    and "req_method rq = ''get''" and "req_uri rq = ''/hosts''"
    and "success r" and "body r = Return j" and "py_len j = Return 0"
  shows "requests tr =
    [rq,
     \<lparr>req_method = ''post'', req_uri = ''/hosts'', req_params = None,
      req_json = Some (PDict
        [(''name'', name), (''iddom'', iddom), (''idview'', idview),
         (''mac'', PStr ''''), (''idhinfo'', PInt 0), (''comment'', PStr ''''),
         (''respname'', PStr ''''), (''respmail'', PStr ''''),
         (''iddhcpprof'', PInt (- 1)), (''ttl'', PInt (- 1)),
         (''addr'', PList [PStr (ip a)])])\<rparr>]"
  using assms(1)
proof (cases rule: main_run)
  case (resolved name' domain' iddom' idview' w3)
  from resolved(5) show ?thesis
  proof (cases rule: add_host_run)
    case (create r0 j0 w0)
    from create(4) show ?thesis
      using assms(2-) create(1-3)
      by (cases rule: create_host_run) (auto simp: request_defs)
  next
    case (update r0 j0 w0)
    from update(4) show ?thesis
      using assms(2-) update(1-3)
      by (cases rule: update_host_run) (auto simp: request_defs)
  qed (use assms(2-) in \<open>auto simp: request_defs\<close>)
qed (use assms(2-) in auto)

theorem create_request_on_zero_matches_witness:
  "requests (snd (snd (main (example_env host1 (PInt 2) no_host) example_args ()))) =
     [\<lparr>req_method = ''get'', req_uri = ''/hosts'',
       req_params = Some (PDict [(''name'', PStr ''host1''),
         (''domain'', PStr ''example.com''), (''view'', PStr ''internal'')]),
       req_json = None\<rparr>,
      \<lparr>req_method = ''post'', req_uri = ''/hosts'', req_params = None,
       req_json = Some (PDict
          [(''name'', PStr ''host1''), (''iddom'', PInt 3), (''idview'', PInt 2),
           (''mac'', PStr ''''), (''idhinfo'', PInt 0), (''comment'', PStr ''''),
           (''respname'', PStr ''''), (''respmail'', PStr ''''),
           (''iddhcpprof'', PInt (- 1)), (''ttl'', PInt (- 1)),
           (''addr'', PList [PStr ''192.0.2.10''])])\<rparr>]"
  using create_request_on_zero_matches [OF run_no_host,
      where f = "''host1.example.com''" and name = "PStr ''host1''"
        and domain = "PStr ''example.com''" and iddom = "PInt 3"
        and v = "''internal''" and idview = "PInt 2"
        and rq = "\<lparr>req_method = ''get'', req_uri = ''/hosts'',
       req_params = Some (PDict [(''name'', PStr ''host1''),
         (''domain'', PStr ''example.com''), (''view'', PStr ''internal'')]),
       req_json = None\<rparr>"
        and r = "\<lparr>success = True, body = Return (PList [])\<rparr>" and j = "PList []"]
  by (simp add: run_no_host example_args_sel)

text \<open>
  C2. When the lookup succeeds with exactly one match that has an \<open>idhost\<close>, the tool
  sends, right after the lookup, the GET on \<open>/hosts/\<close> followed by \<open>str (idhost)\<close>, and
  no run on this path sends a POST. When that GET returns a success whose record has the
  address list \<open>A\<close>, the one call that follows is the PUT on the same URI of the record
  with the address list \<open>A @ [ip]\<close>, whether or not \<open>ip\<close> occurs in \<open>A\<close>.
\<close>

theorem update_appends_address:
  assumes "main env a w = (out, w', tr)"
    and "Ev_api rq (Return r) \<in> set tr"
    and "req_method rq = ''get''" and "req_uri rq = ''/hosts''"
    and "success r" and "body r = Return (PList [m])"
    and "py_getitem_str m ''idhost'' = Return idhost"
  shows "\<exists>pre res rest.
    tr = pre @ Ev_api rq (Return r)
           # Ev_api \<lparr>req_method = ''get'', req_uri = ''/hosts/'' @ py_str env idhost,
                     req_params = None, req_json = None\<rparr> res
           # rest
    \<and> requests pre = []
    \<and> ''post'' \<notin> req_method ` set (requests tr)
    \<and> (\<forall>r' d A.
          res = Return r' \<and> success r' \<and> body r' = Return (PDict d) \<and>
          map_of d ''addr'' = Some (PList A) \<longrightarrow>
          (\<exists>res'. rest =
             [Ev_api \<lparr>req_method = ''put'', req_uri = ''/hosts/'' @ py_str env idhost,
                      req_params = None,
                      req_json = Some (PDict
                        (AList.update ''addr'' (PList (A @ [PStr (ip a)])) d))\<rparr> res'])
          \<and> map_of (AList.update ''addr'' (PList (A @ [PStr (ip a)])) d) ''addr''
              = Some (PList (A @ [PStr (ip a)])))"
  using assms(1)
proof (cases rule: main_run)
  case (resolved name' domain' iddom' idview' w3)
  let ?pre = "[Ev_read_conf (default_conf_filename env) (Return ()),
               Ev_split_fqdn (fqdn a) (Return (name', domain', iddom')),
               Ev_get_idview (view a) (Return idview')]"
  from resolved(5) show ?thesis
  proof (cases rule: add_host_run)
    case (create r0 j0 w0)
    from create(4) show ?thesis
      using assms(2-) create(1-3)
      by (cases rule: create_host_run) (auto simp: request_defs)
  next
    case (update r0 j0 w0)
    from update(4) show ?thesis
    proof (cases rule: update_host_run)
      case (no_idhost e)
      with assms(2-) update(1-3) show ?thesis by (auto simp: request_defs)
    next
      case (get_raised j1 idh e)
      with assms(2-) update(1-3) have eq: "rq = lookup_request a name' domain'" "r = r0" "idh = idhost"
        by (auto simp: request_defs)
      show ?thesis
        by (rule exI[of _ ?pre], rule exI[of _ "Raise e"], rule exI[of _ "[]"])
           (use get_raised eq in \<open>auto simp: request_defs\<close>)
    next
      case (get_failed j1 idh r1)
      with assms(2-) update(1-3) have eq: "rq = lookup_request a name' domain'" "r = r0" "idh = idhost"
        by (auto simp: request_defs)
      show ?thesis
        by (rule exI[of _ ?pre], rule exI[of _ "Return r1"], rule exI[of _ "[]"])
           (use get_failed eq in \<open>auto simp: request_defs\<close>)
    next
      case (bad_record j1 idh r1 e)
      with assms(2-) update(1-3) have eq: "rq = lookup_request a name' domain'" "r = r0" "idh = idhost"
        by (auto simp: request_defs)
      show ?thesis
        by (rule exI[of _ ?pre], rule exI[of _ "Return r1"], rule exI[of _ "[]"])
           (use bad_record eq in \<open>auto simp: request_defs append_addr_def\<close>)
    next
      case (put j1 idh r1 data data' r2)
      with assms(2-) update(1-3) have eq: "rq = lookup_request a name' domain'" "r = r0" "idh = idhost"
        by (auto simp: request_defs)
      show ?thesis
        by (rule exI[of _ ?pre], rule exI[of _ "Return r1"],
            rule exI[of _ "[Ev_api (put_request env idh data') r2]"])
           (use put eq in \<open>auto simp: request_defs append_addr_def update_conv'\<close>)
    qed
  qed (use assms(2-) in \<open>auto simp: request_defs\<close>)
qed (use assms(2-) in auto)


theorem update_appends_address_witness:
  "requests (snd (snd (main (example_env host1 (PInt 2) one_host) example_args ()))) =
     [\<lparr>req_method = ''get'', req_uri = ''/hosts'',
       req_params = Some (PDict [(''name'', PStr ''host1''),
         (''domain'', PStr ''example.com''), (''view'', PStr ''internal'')]),
       req_json = None\<rparr>,
      \<lparr>req_method = ''get'', req_uri = ''/hosts/42'', req_params = None, req_json = None\<rparr>,
      \<lparr>req_method = ''put'', req_uri = ''/hosts/42'', req_params = None,
       req_json = Some (PDict [(''idhost'', PInt 42), (''name'', PStr ''host1''),
                (''addr'', PList [PStr ''192.0.2.10'', PStr ''192.0.2.10'']),
                (''ttl'', PInt (- 1))])\<rparr>]"
proof -
  let ?rq = "\<lparr>req_method = ''get'', req_uri = ''/hosts'',
       req_params = Some (PDict [(''name'', PStr ''host1''),
         (''domain'', PStr ''example.com''), (''view'', PStr ''internal'')]),
       req_json = None\<rparr>"
  let ?r = "\<lparr>success = True, body = Return (PList [PDict [(''idhost'', PInt 42)]])\<rparr>"
  let ?rec = "[(''idhost'', PInt 42), (''name'', PStr ''host1''),
               (''addr'', PList [PStr ''192.0.2.10'']), (''ttl'', PInt (- 1))]"
  let ?r' = "\<lparr>success = True, body = Return (PDict ?rec)\<rparr>"
  from update_appends_address [OF run_one_host,
      where rq = ?rq and r = ?r and m = "PDict [(''idhost'', PInt 42)]" and idhost = "PInt 42"]
  obtain pre res rest where
    tr: "snd (snd (main (example_env host1 (PInt 2) one_host) example_args ())) =
         pre @ Ev_api ?rq (Return ?r)
           # Ev_api \<lparr>req_method = ''get'', req_uri = ''/hosts/42'',
                     req_params = None, req_json = None\<rparr> res
           # rest"
    and pre: "requests pre = []"
    and put: "\<And>r' d A. res = Return r' \<Longrightarrow> success r' \<Longrightarrow> body r' = Return (PDict d) \<Longrightarrow>
          map_of d ''addr'' = Some (PList A) \<Longrightarrow>
          \<exists>res'. rest =
             [Ev_api \<lparr>req_method = ''put'', req_uri = ''/hosts/42'', req_params = None,
                      req_json = Some (PDict
                        (AList.update ''addr''
                           (PList (A @ [PStr (ip example_args)])) d))\<rparr> res']"
    by (simp add: run_one_host py_str_lit) blast
  from tr have "res = Return ?r'"
    by (auto simp: run_one_host Cons_eq_append_conv)
  from put[OF this, of ?rec "[PStr ''192.0.2.10'']"] obtain res' where
    "rest = [Ev_api \<lparr>req_method = ''put'', req_uri = ''/hosts/42'', req_params = None,
                      req_json = Some (PDict
                        (AList.update ''addr''
                           (PList ([PStr ''192.0.2.10''] @ [PStr (ip example_args)])) ?rec))\<rparr> res']"
    by auto
  with tr pre show ?thesis
    by (simp add: requests_append example_args_sel)
qed

text \<open>
  C3. With \<open>-c CONFIG_FILE\<close> the tool should read its configuration from that file. The
  code assigns \<open>configfile\<close> only when the option is absent, so with the option every run
  ends in an uncaught UnboundLocalError before any call into the library: no
  configuration is read and no request is sent.
\<close>

theorem config_file_option_unbound: "main env (a\<lparr>config_file := Some f\<rparr>) w = (Uncaught UnboundLocalError, w, [])"
  by (simp add: main_def)

text \<open>
  C4. When the lookup succeeds with more than one match, the run ends with the fatal
  duplicate-host message and the lookup is its only request.
\<close>

theorem duplicate_host_is_fatal:
  assumes "main env a w = (out, w', tr)"
    and "Ev_split_fqdn f (Return (name, domain, iddom)) \<in> set tr"
    and "Ev_api rq (Return r) \<in> set tr"
    and "req_method rq = ''get''" and "req_uri rq = ''/hosts''"
    and "success r" and "body r = Return j" and "py_len j = Return nr" and "1 < nr"
  shows "out = Fatal (''Server error: host '' @ [CHR 0x27] @ py_str env name @ ''.''
                      @ py_str env domain @ [CHR 0x27]
                      @ '' exists more than once in view '' @ view a)
         \<and> requests tr = [rq]"
  using assms(1)
proof (cases rule: main_run)
  case (resolved name' domain' iddom' idview' w3)
  from resolved(5) show ?thesis
  proof (cases rule: add_host_run)
    case (create r0 j0 w0)
    from create(4) show ?thesis
      using assms(2-) create(1-3)
      by (cases rule: create_host_run) (auto simp: request_defs)
  next
    case (update r0 j0 w0)
    from update(4) show ?thesis
      using assms(2-) update(1-3)
      by (cases rule: update_host_run) (auto simp: request_defs)
  qed (use assms(2-) in \<open>auto simp: request_defs dup_msg_def\<close>)
qed (use assms(2-) in auto)

theorem duplicate_host_is_fatal_witness:
  "fst (main (example_env host1 (PInt 2) two_hosts) example_args ()) =
     Fatal (''Server error: host '' @ [CHR 0x27] @ ''host1.example.com'' @ [CHR 0x27]
            @ '' exists more than once in view internal'')
   \<and> requests (snd (snd (main (example_env host1 (PInt 2) two_hosts) example_args ()))) =
     [\<lparr>req_method = ''get'', req_uri = ''/hosts'',
       req_params = Some (PDict [(''name'', PStr ''host1''),
         (''domain'', PStr ''example.com''), (''view'', PStr ''internal'')]),
       req_json = None\<rparr>]"
  using duplicate_host_is_fatal [OF run_two_hosts,
      where f = "''host1.example.com''" and name = "PStr ''host1''"
        and domain = "PStr ''example.com''" and iddom = "PInt 3"
        and rq = "\<lparr>req_method = ''get'', req_uri = ''/hosts'',
       req_params = Some (PDict [(''name'', PStr ''host1''),
         (''domain'', PStr ''example.com''), (''view'', PStr ''internal'')]),
       req_json = None\<rparr>"
        and r = "\<lparr>success = True,
            body = Return (PList [PDict [(''idhost'', PInt 42)],
                                  PDict [(''idhost'', PInt 43)]])\<rparr>"
        and j = "PList [PDict [(''idhost'', PInt 42)], PDict [(''idhost'', PInt 43)]]"
        and nr = 2]
  by (simp add: run_two_hosts example_args_sel py_str_lit)

text \<open>
  C5. When \<open>split_fqdn\<close> returns no name, the run ends with "Invalid FQDN"; when it
  returns a name and no domain identifier, with "Unknown domain"; when \<open>get_idview\<close>
  returns no identifier, with "Unknown view". In each case no request has been sent.
\<close>

theorem resolution_errors_before_any_request:
  assumes "main env a w = (out, w', tr)"
  shows "(Ev_split_fqdn f (Return (PNone, domain, iddom)) \<in> set tr \<longrightarrow>
            out = Fatal (''Invalid FQDN '' @ fqdn a) \<and> requests tr = [])
       \<and> (Ev_split_fqdn f (Return (name, domain, PNone)) \<in> set tr \<and> name \<noteq> PNone \<longrightarrow>
            out = Fatal (''Unknown domain '' @ py_str env domain) \<and> requests tr = [])
       \<and> (Ev_get_idview v (Return PNone) \<in> set tr \<longrightarrow>
            out = Fatal (''Unknown view '' @ view a) \<and> requests tr = [])"
  using assms(1)
proof (cases rule: main_run)
  case (resolved name' domain' iddom' idview' w3)
  from resolved(5) show ?thesis
  proof (cases rule: add_host_run)
    case (create r0 j0 w0)
    from create(4) show ?thesis
      using resolved(2-4)
      by (cases rule: create_host_run) auto
  next
    case (update r0 j0 w0)
    from update(4) show ?thesis
      using resolved(2-4)
      by (cases rule: update_host_run) auto
  qed (use resolved(2-4) in auto)
qed auto

theorem resolution_errors_before_any_request_witness:
  "fst (main (example_env (PNone, PNone, PNone) (PInt 2) no_host) example_args ()) =
     Fatal ''Invalid FQDN host1.example.com''
   \<and> fst (main (example_env (PStr ''host1'', PStr ''example.com'', PNone) (PInt 2) no_host)
            example_args ()) =
     Fatal ''Unknown domain example.com''
   \<and> fst (main (example_env host1 PNone no_host) example_args ()) =
     Fatal ''Unknown view internal''"
  using resolution_errors_before_any_request [OF run_invalid_fqdn,
      where f = "''host1.example.com''" and domain = PNone and iddom = PNone]
    resolution_errors_before_any_request [OF run_unknown_domain,
      where f = "''host1.example.com''" and name = "PStr ''host1''"
        and domain = "PStr ''example.com''"]
    resolution_errors_before_any_request [OF run_unknown_view, where v = "''internal''"]
  by (simp add: run_invalid_fqdn run_unknown_domain run_unknown_view example_args_sel
        py_str_lit)

text \<open>
  C6. A PUT of the run sends the record that the GET on the same URI returned, with only
  the value under \<open>addr\<close> changed: the keys are the same, in the same order, and every
  other key has the value it had.
\<close>

theorem update_preserves_other_fields:
  assumes "main env a w = (out, w', tr)"
    and "Ev_api rq res \<in> set tr" and "req_method rq = ''put''"
  shows "\<exists>rq' r' d d'. Ev_api rq' (Return r') \<in> set tr \<and> req_method rq' = ''get'' \<and>
           req_uri rq' = req_uri rq \<and> success r' \<and> body r' = Return (PDict d) \<and>
           req_json rq = Some (PDict d') \<and> map fst d' = map fst d \<and>
           (\<forall>k. k \<noteq> ''addr'' \<longrightarrow> map_of d' k = map_of d k)"
  using assms(1)
proof (cases rule: main_run)
  case (resolved name' domain' iddom' idview' w3)
  from resolved(5) show ?thesis
  proof (cases rule: add_host_run)
    case (create r0 j0 w0)
    from create(4) show ?thesis
      using assms(2-)
      by (cases rule: create_host_run) (auto simp: request_defs)
  next
    case (update r0 j0 w0)
    from update(4) show ?thesis
    proof (cases rule: update_host_run)
      case (put j1 idhost r1 data data' r2)
      from put(5) obtain d A where d: "data = PDict d" "map_of d ''addr'' = Some (PList A)"
        "data' = PDict (AList.update ''addr'' (PList (A @ [PStr (ip a)])) d)"
        by (rule append_addr_Return)
      from d(2) have "''addr'' \<in> fst ` set d"
        by (metis map_of_eq_None_iff option.distinct(1))
      then have k: "map fst (AList.update ''addr'' (PList (A @ [PStr (ip a)])) d) = map fst d"
        by (simp add: update_keys)
      have "Ev_api (get_request env idhost) (Return r1) \<in> set tr"
        using put(6) by simp
      moreover have "rq = put_request env idhost data'"
        using put(6) assms(2,3) by (auto simp: request_defs)
      ultimately show ?thesis
        using put(3,4) d k
        by (intro exI[of _ "get_request env idhost"] exI[of _ r1] exI[of _ d]
                 exI[of _ "AList.update ''addr'' (PList (A @ [PStr (ip a)])) d"])
           (simp add: request_defs update_conv')
    qed (use assms(2-) in \<open>auto simp: request_defs\<close>)
  qed (use assms(2-) in \<open>auto simp: request_defs\<close>)
qed (use assms(2-) in auto)

theorem update_preserves_other_fields_witness:
  "\<exists>rq' r' d d'.
     Ev_api rq' (Return r')
       \<in> set (snd (snd (main (example_env host1 (PInt 2) one_host) example_args ()))) \<and>
     req_method rq' = ''get'' \<and> req_uri rq' = ''/hosts/42'' \<and> success r' \<and>
     body r' = Return (PDict d) \<and>
     Some (PDict [(''idhost'', PInt 42), (''name'', PStr ''host1''),
                (''addr'', PList [PStr ''192.0.2.10'', PStr ''192.0.2.10'']),
                (''ttl'', PInt (- 1))]) = Some (PDict d') \<and> map fst d' = map fst d \<and>
     (\<forall>k. k \<noteq> ''addr'' \<longrightarrow> map_of d' k = map_of d k)"
  using update_preserves_other_fields [OF run_one_host,
      where rq = "\<lparr>req_method = ''put'', req_uri = ''/hosts/42'', req_params = None,
                   req_json = Some (PDict [(''idhost'', PInt 42), (''name'', PStr ''host1''),
                (''addr'', PList [PStr ''192.0.2.10'', PStr ''192.0.2.10'']),
                (''ttl'', PInt (- 1))])\<rparr>"
        and res = "Return \<lparr>success = True, body = Return (PDict [(''idhost'', PInt 42), (''name'', PStr ''host1''),
                (''addr'', PList [PStr ''192.0.2.10'']), (''ttl'', PInt (- 1))])\<rparr>"]
  by (simp add: run_one_host)

text \<open>
  C7. When a call to the API returns a response that is not a success, the run ends with
  the fatal error of \<open>test_answer\<close> for that response; the call is the last one of the
  run, and its request was not sent before.
\<close>

theorem non_success_is_fatal:
  assumes "main env a w = (out, w', tr)"
    and "Ev_api rq (Return r) \<in> set tr" and "\<not> success r"
  shows "out = Fatal (answer_text env r) \<and>
         (\<exists>pre. tr = pre @ [Ev_api rq (Return r)] \<and> rq \<notin> set (requests pre))"
  using assms(1)
proof (cases rule: main_run)
  case (resolved name domain iddom idview w3)
  from resolved(5) show ?thesis
  proof (cases rule: add_host_run)
    case (create r0 j w0)
    from create(4) show ?thesis
      using assms(2,3) create(1)
      by (cases rule: create_host_run)
         (auto simp: final_def request_defs split: result.splits if_splits)
  next
    case (update r0 j w0)
    from update(4) show ?thesis
      using assms(2,3) update(1)
      by (cases rule: update_host_run)
         (auto simp: final_def request_defs split: result.splits if_splits)
  qed (use assms(2,3) in \<open>auto simp: request_defs\<close>)
qed (use assms(2,3) in auto)

theorem non_success_is_fatal_witness:
  "fst (main (example_env host1 (PInt 2) refusing) example_args ()) = Fatal ''API error''
   \<and> (\<exists>pre. snd (snd (main (example_env host1 (PInt 2) refusing) example_args ())) =
          pre @ [Ev_api \<lparr>req_method = ''get'', req_uri = ''/hosts'',
       req_params = Some (PDict [(''name'', PStr ''host1''),
         (''domain'', PStr ''example.com''), (''view'', PStr ''internal'')]),
       req_json = None\<rparr>
            (Return \<lparr>success = False, body = Raise (OtherError ''JSONDecodeError'')\<rparr>)] \<and>
        \<lparr>req_method = ''get'', req_uri = ''/hosts'',
       req_params = Some (PDict [(''name'', PStr ''host1''),
         (''domain'', PStr ''example.com''), (''view'', PStr ''internal'')]),
       req_json = None\<rparr>
          \<notin> set (requests pre))"
  using non_success_is_fatal [OF run_refusing,
      where rq = "\<lparr>req_method = ''get'', req_uri = ''/hosts'',
       req_params = Some (PDict [(''name'', PStr ''host1''),
         (''domain'', PStr ''example.com''), (''view'', PStr ''internal'')]),
       req_json = None\<rparr>"
        and r = "\<lparr>success = False, body = Raise (OtherError ''JSONDecodeError'')\<rparr>"]
  by (simp add: run_refusing example_env_sel)

text \<open>
  C8. On every path, for every library, server and command line, a run sends at most one
  POST or PUT.
\<close>

theorem at_most_one_mutating_request: "length (filter mutating (requests (snd (snd (main env a w))))) \<le> 1"
proof -
  obtain out s' where m: "main env a w = (out, s')"
    by (cases "main env a w")
  have "length (filter mutating (requests (snd s'))) \<le> 1"
    using m
  proof (cases rule: main_run)
    case (resolved name' domain' iddom' idview' w3)
    from resolved(5) show ?thesis
    proof (cases rule: add_host_run)
      case (create r0 j0 w0)
      from create(4) show ?thesis
        by (cases rule: create_host_run) (auto simp: request_defs mutating_def)
    next
      case (update r0 j0 w0)
      from update(4) show ?thesis
        by (cases rule: update_host_run) (auto simp: request_defs mutating_def)
    qed (auto simp: request_defs mutating_def)
  qed auto
  with m show ?thesis by simp
qed

text \<open>
  C9. The view check is by truth value: when \<open>get_idview\<close> returns any value that
  Python takes for false (\<open>None\<close>, \<open>0\<close>, an empty string, list or dictionary, \<open>False\<close>),
  the run ends with "Unknown view" right after that call, and no request has been sent.
\<close>

theorem falsy_idview_is_unknown_view:
  assumes "main env a w = (out, w', tr)"
    and "Ev_get_idview v (Return idview) \<in> set tr" and "\<not> truthy idview"
  shows "out = Fatal (''Unknown view '' @ view a) \<and> requests tr = [] \<and>
         last tr = Ev_get_idview v (Return idview)"
  using assms(1)
proof (cases rule: main_run)
  case (resolved name' domain' iddom' idview' w3)
  from resolved(5) show ?thesis
  proof (cases rule: add_host_run)
    case (create r0 j0 w0)
    from create(4) show ?thesis
      using resolved(2-4) assms(2-)
      by (cases rule: create_host_run) auto
  next
    case (update r0 j0 w0)
    from update(4) show ?thesis
      using resolved(2-4) assms(2-)
      by (cases rule: update_host_run) auto
  qed (use resolved(2-4) assms(2-) in auto)
qed (use assms(2-) in auto)

theorem falsy_idview_is_unknown_view_witness:
  "\<not> truthy (PInt 0)
   \<and> fst (main (example_env host1 (PInt 0) no_host) example_args ()) =
     Fatal ''Unknown view internal''
   \<and> requests (snd (snd (main (example_env host1 (PInt 0) no_host) example_args ()))) = []
   \<and> last (snd (snd (main (example_env host1 (PInt 0) no_host) example_args ()))) =
     Ev_get_idview ''internal'' (Return (PInt 0))"
  using falsy_idview_is_unknown_view [OF run_view_zero,
      where v = "''internal''" and idview = "PInt 0"]
  by (simp add: run_view_zero example_args_sel)



end
